theory Spec2Isabelle
  imports Main "HOL-Library.Finite_Map"
begin

section \<open>JavaScript values\<close>

text \<open>
  The reducers of \<^verbatim>\<open>reducerKits.ts\<close> work on untyped JavaScript values: an action's
  payload is \<^verbatim>\<open>any\<close>, and the paging state carries an index signature
  \<^verbatim>\<open>[index: string]: any\<close>. A value is \<^verbatim>\<open>undefined\<close>, \<^verbatim>\<open>null\<close>, a boolean, a number,
  a string, an array or a plain object. An object is the finite map of its own enumerable
  properties; the order of its keys, which no transition depends on, is not kept. Numbers
  are the integers (no fractions, \<^verbatim>\<open>NaN\<close> or infinities); strings are byte strings.

  Every transition runs inside \<^verbatim>\<open>produce\<close> of immer: the recipe's writes to the draft give
  the state returned, the state passed in is left as it was, and an exception of the recipe
  is the exception of the reducer. A transition is therefore a function from the state
  and the action to an error or the new state. What lies outside the state is modelled
  where a claim turns on it: the reference a reducer returns, and the properties its
  writes leave on \<^verbatim>\<open>Object.prototype\<close> and the built-ins found there.
\<close>

datatype jsval =
    JUndefined
  | JNull
  | JBool bool
  | JNum int
  | JStr string
  | JArr "jsval list"
  | JObj "(string, jsval) fmap"

type_synonym obj = "(string, jsval) fmap"

text \<open>What an exception of the engine is in the model.\<close>

datatype error =
    TypeError
  | Unmodelled

text \<open>\<^verbatim>\<open>if (v)\<close>, \<^verbatim>\<open>!v\<close>, \<^verbatim>\<open>v || w\<close>: the truthiness of a value.\<close>

fun truthy :: "jsval \<Rightarrow> bool" where
  "truthy JUndefined = False"
| "truthy JNull = False"
| "truthy (JBool b) = b"
| "truthy (JNum n) = (n \<noteq> 0)"
| "truthy (JStr s) = (s \<noteq> [])"
| "truthy (JArr xs) = True"
| "truthy (JObj m) = True"

definition js_or :: "jsval \<Rightarrow> jsval \<Rightarrow> jsval" where
  "js_or a b = (if truthy a then a else b)"

text \<open>Reading a named property of an object: \<^verbatim>\<open>undefined\<close> when it is not there.\<close>

definition get :: "obj \<Rightarrow> string \<Rightarrow> jsval" where
  "get m k = (case fmlookup m k of Some v \<Rightarrow> v | None \<Rightarrow> JUndefined)"

section \<open>Actions\<close>

text \<open>\<^verbatim>\<open>{ type: string, payload?: any, key?: string }\<close>; an absent payload is \<^verbatim>\<open>undefined\<close>.\<close>

record action =
  type :: string
  payload :: jsval
  key :: "string option"

section \<open>createReducerBatch\<close>

text \<open>
  The function each entry of the batch becomes:
  \<^verbatim>\<open>function (state = initialState, action) { switch (action.type) {
      case actionType: return action.payload; default: return state; } }\<close>
  The default parameter replaces \<^verbatim>\<open>undefined\<close> only.
\<close>

definition batchReducer :: "string \<Rightarrow> jsval \<Rightarrow> jsval \<Rightarrow> action \<Rightarrow> jsval" where
  "batchReducer actionType initialState state0 a =
     (let state = (if state0 = JUndefined then initialState else state0)
      in if type a = actionType then payload a else state)"

text \<open>
  \<^verbatim>\<open>init\<close> is the list of the entries of the object in the order of \<^verbatim>\<open>Object.keys\<close>; an
  entry's option is the pair \<^verbatim>\<open>[actionType, initialState]\<close>.
\<close>

fun createReducerBatch ::
  "(string \<times> string \<times> jsval) list \<Rightarrow> (string \<times> (jsval \<Rightarrow> action \<Rightarrow> jsval)) list" where
  "createReducerBatch [] = []"
| "createReducerBatch ((k, option) # init) =
     (let actionType = fst option;
          initialState = js_or (snd option) JNull
      in (k, batchReducer actionType initialState) # createReducerBatch init)"

section \<open>Property access\<close>

text \<open>
  A read \<^verbatim>\<open>o[k]\<close> with a computed name finds an own property of \<^verbatim>\<open>o\<close> or, when there is
  none, what \<^verbatim>\<open>o\<close> inherits from \<^verbatim>\<open>Object.prototype\<close>: a property that was added to the
  prototype, or one of its built-in properties. The built-in values are functions (for
  \<^verbatim>\<open>__proto__\<close> the prototype object itself), all of them truthy.

  The keyed branches of the simple reducer write to what such a read returns. When that
  is inherited, the write leaves the state and lands in the realm: on
  \<^verbatim>\<open>Object.prototype\<close> itself for the name \<^verbatim>\<open>__proto__\<close>, on the built-in function otherwise.
  The realm holds the properties added to \<^verbatim>\<open>Object.prototype\<close> and, under the name of each
  built-in, the properties added to that built-in.
\<close>

definition objectPrototypeKeys :: "string list" where
  "objectPrototypeKeys =
     [''constructor'', ''__defineGetter__'', ''__defineSetter__'', ''hasOwnProperty'',
      ''__lookupGetter__'', ''__lookupSetter__'', ''isPrototypeOf'', ''propertyIsEnumerable'',
      ''toString'', ''valueOf'', ''__proto__'', ''toLocaleString'']"

record realm =
  added :: obj
  onBuiltin :: "(string, obj) fmap"

definition pristine :: realm where
  "pristine = \<lparr>added = fmempty, onBuiltin = fmempty\<rparr>"

datatype lookup =
    Own jsval
  | Added jsval
  | Builtin
  | Absent

definition lookupProp :: "realm \<Rightarrow> obj \<Rightarrow> string \<Rightarrow> lookup" where
  "lookupProp R m k =
     (case fmlookup m k of
        Some v \<Rightarrow> Own v
      | None \<Rightarrow>
          (case fmlookup (added R) k of
             Some v \<Rightarrow> Added v
           | None \<Rightarrow> if List.member objectPrototypeKeys k then Builtin else Absent))"

text \<open>Assignments \<^verbatim>\<open>o.n = v\<close> in their order, on an object.\<close>

definition assign :: "(string \<times> jsval) list \<Rightarrow> obj \<Rightarrow> obj" where
  "assign ws m = fold (\<lambda>(n, v) m'. fmupd n v m') ws m"

text \<open>The same assignments on the built-in value that \<^verbatim>\<open>Object.prototype\<close> has under a name.\<close>

definition writeInherited :: "realm \<Rightarrow> string \<Rightarrow> (string \<times> jsval) list \<Rightarrow> realm" where
  "writeInherited R k ws =
     (if k = ''__proto__'' then R\<lparr>added := assign ws (added R)\<rparr>
      else R\<lparr>onBuiltin :=
             fmupd k
               (assign ws (case fmlookup (onBuiltin R) k of None \<Rightarrow> fmempty | Some m \<Rightarrow> m))
               (onBuiltin R)\<rparr>)"

text \<open>
  \<^verbatim>\<open>v.data\<close>, \<^verbatim>\<open>v.id\<close>, \<^verbatim>\<open>v.clear\<close>, \<^verbatim>\<open>v.firstOffset\<close> on a value that is neither
  \<^verbatim>\<open>undefined\<close> nor \<^verbatim>\<open>null\<close>, as the paging reducer reads them: no built-in prototype has
  a property of these names, so anything but an object with such an own property gives
  \<^verbatim>\<open>undefined\<close>. The paging reducer writes nothing to the realm; it is modelled where no
  property of these names was added to \<^verbatim>\<open>Object.prototype\<close>.
\<close>

definition propOf :: "jsval \<Rightarrow> string \<Rightarrow> jsval" where
  "propOf v k = (case v of JObj m \<Rightarrow> get m k | _ \<Rightarrow> JUndefined)"

definition nullish :: "jsval \<Rightarrow> bool" where
  "nullish v = (v = JUndefined \<or> v = JNull)"

text \<open>The decimal name of an array index.\<close>

fun decimal :: "nat \<Rightarrow> string" where
  "decimal n =
     (if n < 10 then [''0123456789'' ! n]
      else decimal (n div 10) @ [''0123456789'' ! (n mod 10)])"

declare decimal.simps [simp del]

fun indexed :: "nat \<Rightarrow> jsval list \<Rightarrow> (string \<times> jsval) list" where
  "indexed i [] = []"
| "indexed i (x # xs) = (decimal i, x) # indexed (Suc i) xs"

text \<open>
  The own enumerable properties a spread \<^verbatim>\<open>{...v}\<close> or a rest pattern copies: those of an
  object, the elements of an array and the characters of a string under their indices,
  nothing for the other values.
\<close>

fun ownProps :: "jsval \<Rightarrow> obj" where
  "ownProps (JObj m) = m"
| "ownProps (JArr xs) = fmap_of_list (indexed 0 xs)"
| "ownProps (JStr s) = fmap_of_list (indexed 0 (map (\<lambda>c. JStr [c]) s))"
| "ownProps v = fmempty"

text \<open>
  \<^verbatim>\<open>const { a, b, ...rest } = v\<close>: a TypeError on \<^verbatim>\<open>undefined\<close> and \<^verbatim>\<open>null\<close>. What a
  compiled rest pattern does with an own property named \<^verbatim>\<open>__proto__\<close> depends on the
  compilation target, and is left out of the model.
\<close>

definition restOf :: "jsval \<Rightarrow> string list \<Rightarrow> error + obj" where
  "restOf v names =
     (if nullish v then Inl TypeError
      else if ''__proto__'' |\<in>| fmdom (ownProps v) then Inl Unmodelled
      else Inr (fold fmdrop names (ownProps v)))"

text \<open>
  \<^verbatim>\<open>a === b\<close> where \<^verbatim>\<open>a\<close> is read from the draft of the state. Primitive values are
  compared by value. An array or object read from a draft is a draft of its own, which is
  identical to no value of the action.
\<close>

fun primitive :: "jsval \<Rightarrow> bool" where
  "primitive (JArr xs) = False"
| "primitive (JObj m) = False"
| "primitive v = True"

definition strictEq :: "jsval \<Rightarrow> jsval \<Rightarrow> bool" where
  "strictEq a b = (primitive a \<and> a = b)"


function bitLength :: "int \<Rightarrow> nat" where
  "bitLength z = (if z \<le> 0 then 0 else Suc (bitLength (z div 2)))"
  by pat_completeness auto
termination
  by (relation "measure nat") auto

declare bitLength.simps [simp del]

definition toDouble :: "int \<Rightarrow> int" where
  "toDouble z =
     (let a = \<bar>z\<bar>;
          e = bitLength a - 53;
          q = a div 2 ^ e;
          r = a mod 2 ^ e;
          q' = (if 2 ^ e < 2 * r \<or> (2 * r = 2 ^ e \<and> odd q) then q + 1 else q)
      in if e = 0 then z else sgn z * (q' * 2 ^ e))"

definition addNum :: "jsval \<Rightarrow> int \<Rightarrow> error + jsval" where
  "addNum v d = (case v of JNum n \<Rightarrow> Inr (JNum (toDouble (n + d))) | _ \<Rightarrow> Inl Unmodelled)"

section \<open>ActionTypeMaker\<close>

text \<open>
  Modelled from the spec: \<^verbatim>\<open>ActionTypeMaker\<close> of \<^verbatim>\<open>actionKits\<close>, which the sources at hand
  import and do not hold. Section 4.1: given prefix \<^verbatim>\<open>P\<close>, \<^verbatim>\<open>PENDING = P + "_PENDING"\<close>,
  \<^verbatim>\<open>SUCCESS = P + "_SUCCESS"\<close>, \<^verbatim>\<open>FAIL = P + "_FAIL"\<close>, \<^verbatim>\<open>RESET = P + "_RESET"\<close>, and for the
  paging variant \<^verbatim>\<open>UPDATE\<close>, \<^verbatim>\<open>ADD_LAST\<close>, \<^verbatim>\<open>ADD_FIRST\<close>, \<^verbatim>\<open>REPLACE\<close>, \<^verbatim>\<open>REMOVE\<close> with analogous
  suffixes.
\<close>

definition PENDING :: "string \<Rightarrow> string" where "PENDING P = P @ ''_PENDING''"
definition SUCCESS :: "string \<Rightarrow> string" where "SUCCESS P = P @ ''_SUCCESS''"
definition FAIL :: "string \<Rightarrow> string" where "FAIL P = P @ ''_FAIL''"
definition RESET :: "string \<Rightarrow> string" where "RESET P = P @ ''_RESET''"
definition UPDATE :: "string \<Rightarrow> string" where "UPDATE P = P @ ''_UPDATE''"
definition ADD_LAST :: "string \<Rightarrow> string" where "ADD_LAST P = P @ ''_ADD_LAST''"
definition ADD_FIRST :: "string \<Rightarrow> string" where "ADD_FIRST P = P @ ''_ADD_FIRST''"
definition REPLACE :: "string \<Rightarrow> string" where "REPLACE P = P @ ''_REPLACE''"
definition REMOVE :: "string \<Rightarrow> string" where "REMOVE P = P @ ''_REMOVE''"

section \<open>Property paths of lodash\<close>

text \<open>
  \<^verbatim>\<open>_.unset(object, path)\<close> removes the property at a path. A string path is one key when
  \<^verbatim>\<open>isKey\<close> says so; otherwise \<^verbatim>\<open>stringToPath\<close> cuts it into keys with the expression
  \<^verbatim>\<open>rePropName\<close>, whose alternatives are, in this order: a run of characters other
  than \<^verbatim>\<open>.\<close>, \<^verbatim>\<open>[\<close> and \<^verbatim>\<open>]\<close>; a bracket around a number or a quoted string; the empty
  key before a \<^verbatim>\<open>.\<close> or \<^verbatim>\<open>[]\<close> that is followed by \<^verbatim>\<open>.\<close>, \<^verbatim>\<open>[]\<close> or the end.
\<close>

definition pathChar :: "char \<Rightarrow> bool" where
  "pathChar c = (c = CHR ''.'' \<or> c = CHR ''['' \<or> c = CHR '']'')"

definition isDigit :: "char \<Rightarrow> bool" where
  "isDigit c = List.member ''0123456789'' c"

definition wordChar :: "char \<Rightarrow> bool" where
  "wordChar c =
     List.member ''abcdefghijklmnopqrstuvwxyzABCDEFGHIJKLMNOPQRSTUVWXYZ0123456789_'' c"

text \<open>
  After an opening bracket, \<^verbatim>\<open>-?\d+(?:\.\d+)?\<close> and the closing bracket: the number's text
  and how many characters were read.
\<close>

definition bracketNumber :: "string \<Rightarrow> (string \<times> nat) option" where
  "bracketNumber s =
     (let sign = takeWhile (\<lambda>c. c = CHR ''-'') (take 1 s);
          s1 = drop (length sign) s;
          whole = takeWhile isDigit s1;
          s2 = dropWhile isDigit s1;
          frac = takeWhile isDigit (drop 1 s2);
          s3 = dropWhile isDigit (drop 1 s2)
      in if whole = [] then None
         else if take 1 s2 = '']'' then Some (sign @ whole, length sign + length whole + 1)
         else if take 1 s2 = ''.'' \<and> frac \<noteq> [] \<and> take 1 s3 = '']''
           then Some (sign @ whole @ ''.'' @ frac,
                      length sign + length whole + 1 + length frac + 1)
         else None)"

text \<open>
  After an opening quote \<^verbatim>\<open>q\<close>: characters other than \<^verbatim>\<open>q\<close> and the backslash, or a
  backslash and the character after it (no line break), up to \<^verbatim>\<open>q\<close> and the closing bracket.
\<close>

fun quotedBody :: "char \<Rightarrow> string \<Rightarrow> (string \<times> nat) option" where
  "quotedBody q [] = None"
| "quotedBody q [c] = None"
| "quotedBody q (c # d # cs) =
     (if c = q then (if d = CHR '']'' then Some ([], 2) else None)
      else if c = CHR 0x5C then
        (if d = CHR 0x0A \<or> d = CHR 0x0D then None
         else map_option (\<lambda>(b, n). (c # d # b, n + 2)) (quotedBody q cs))
      else map_option (\<lambda>(b, n). (c # b, n + 1)) (quotedBody q (d # cs)))"

text \<open>\<^verbatim>\<open>subString.replace(/\\(\\)?/g, '$1')\<close>.\<close>

fun unescape :: "string \<Rightarrow> string" where
  "unescape [] = []"
| "unescape [c] = (if c = CHR 0x5C then [] else [c])"
| "unescape (c # d # cs) =
     (if c = CHR 0x5C then (if d = CHR 0x5C then d # unescape cs else unescape (d # cs))
      else c # unescape (d # cs))"

definition bracketExpr :: "string \<Rightarrow> (string \<times> nat) option" where
  "bracketExpr s =
     (case bracketNumber s of
        Some r \<Rightarrow> Some r
      | None \<Rightarrow>
          (case s of
             [] \<Rightarrow> None
           | q # cs \<Rightarrow>
               if q = CHR 0x22 \<or> q = CHR 0x27
               then map_option (\<lambda>(b, n). (unescape b, n + 1)) (quotedBody q cs)
               else None))"

definition dotOrPair :: "string \<Rightarrow> string option" where
  "dotOrPair s =
     (if take 1 s = ''.'' then Some (drop 1 s)
      else if take 2 s = ''[]'' then Some (drop 2 s)
      else None)"

definition emptyKeyAhead :: "string \<Rightarrow> bool" where
  "emptyKeyAhead s =
     (case dotOrPair s of None \<Rightarrow> False | Some r \<Rightarrow> r = [] \<or> dotOrPair r \<noteq> None)"

function rePropName :: "string \<Rightarrow> string list" where
  "rePropName [] = []"
| "rePropName (c # cs) =
     (if \<not> pathChar c
      then (c # takeWhile (\<lambda>x. \<not> pathChar x) cs) # rePropName (dropWhile (\<lambda>x. \<not> pathChar x) cs)
      else case (if c = CHR ''['' then bracketExpr cs else None) of
             Some (name, n) \<Rightarrow> name # rePropName (drop n cs)
           | None \<Rightarrow> if emptyKeyAhead (c # cs) then [] # rePropName cs else rePropName cs)"
  by pat_completeness auto
termination
  by (relation "measure length") (auto simp: less_Suc_eq_le length_dropWhile_le)

definition stringToPath :: "string \<Rightarrow> string list" where
  "stringToPath s = (if take 1 s = ''.'' then [[]] else []) @ rePropName s"

text \<open>
  \<^verbatim>\<open>reIsPlainProp = /^\w*$/\<close>. \<^verbatim>\<open>reIsDeepProp\<close> finds a dot, or an opening bracket with
  either no bracket character up to a closing bracket or a quoted string and a closing
  bracket; a string holds such a bracket pair exactly when some closing bracket comes
  after an opening one.
\<close>

definition reIsPlainProp :: "string \<Rightarrow> bool" where
  "reIsPlainProp s = list_all wordChar s"

definition reIsDeepProp :: "string \<Rightarrow> bool" where
  "reIsDeepProp s =
     (List.member s (CHR ''.'') \<or> List.member (dropWhile (\<lambda>c. c \<noteq> CHR ''['') s) (CHR '']''))"

definition isKey :: "realm \<Rightarrow> string \<Rightarrow> obj \<Rightarrow> bool" where
  "isKey R v object =
     (reIsPlainProp v \<or> \<not> reIsDeepProp v \<or> lookupProp R object v \<noteq> Absent)"

definition castPath :: "realm \<Rightarrow> string \<Rightarrow> obj \<Rightarrow> string list" where
  "castPath R v object = (if isKey R v object then [v] else stringToPath v)"

text \<open>
  A read of a name on a number or a boolean finds what its prototype chain has: the
  built-in methods, or a property added to \<^verbatim>\<open>Object.prototype\<close>.
\<close>

definition numberPrototypeKeys :: "string list" where
  "numberPrototypeKeys = objectPrototypeKeys @ [''toExponential'', ''toFixed'', ''toPrecision'']"

definition readsInherited :: "realm \<Rightarrow> string list \<Rightarrow> string \<Rightarrow> bool" where
  "readsInherited R builtin k =
     (case fmlookup (added R) k of
        Some v \<Rightarrow> \<not> nullish v
      | None \<Rightarrow> List.member builtin k)"

text \<open>
  \<^verbatim>\<open>baseUnset\<close> on the draft: \<^verbatim>\<open>baseGet\<close> walks to the parent of the last key and the
  property is deleted there, which removes an own property and nothing inherited. A parent
  that is \<^verbatim>\<open>undefined\<close> or \<^verbatim>\<open>null\<close> ends it with nothing done, and so does a parent that is
  a number or a boolean, which has no own property to delete. The last key of an empty path
  is \<^verbatim>\<open>undefined\<close>, as a key the string of that name. Walks through arrays, strings and
  inherited values are left out of the model.
\<close>

fun baseUnset :: "realm \<Rightarrow> obj \<Rightarrow> string list \<Rightarrow> error + obj" where
  "baseUnset R m [] = Inr (fmdrop ''undefined'' m)"
| "baseUnset R m [k] = Inr (fmdrop k m)"
| "baseUnset R m (k # k' # ks) =
     (case lookupProp R m k of
        Own (JObj m') \<Rightarrow>
          (case baseUnset R m' (k' # ks) of
             Inl e \<Rightarrow> Inl e
           | Inr r \<Rightarrow> Inr (fmupd k (JObj r) m))
      | Own JUndefined \<Rightarrow> Inr m
      | Own JNull \<Rightarrow> Inr m
      | Own (JNum n) \<Rightarrow>
          if ks = [] \<or> \<not> readsInherited R numberPrototypeKeys k' then Inr m
          else Inl Unmodelled
      | Own (JBool b) \<Rightarrow>
          if ks = [] \<or> \<not> readsInherited R objectPrototypeKeys k' then Inr m
          else Inl Unmodelled
      | Own v \<Rightarrow> Inl Unmodelled
      | Added v \<Rightarrow> if nullish v then Inr m else Inl Unmodelled
      | Builtin \<Rightarrow> Inl Unmodelled
      | Absent \<Rightarrow> Inr m)"

definition unset :: "realm \<Rightarrow> obj \<Rightarrow> string \<Rightarrow> error + obj" where
  "unset R object path = baseUnset R object (castPath R path object)"

section \<open>References\<close>

text \<open>
  What a reducer returns is a reference: the very object it was passed as \<^verbatim>\<open>state\<close>, the
  \<^verbatim>\<open>defaultState\<close> object of its closure, or what \<^verbatim>\<open>produce\<close> gives for a draft that ends
  with the given properties, which is a new object (or the base itself, when the recipe
  changed nothing). The state a reference stands for follows from the arguments.
\<close>

datatype returned =
    Argument
  | Closure
  | Produced obj

definition stateOf :: "obj \<Rightarrow> obj option \<Rightarrow> returned \<Rightarrow> obj" where
  "stateOf defaultState state0 r =
     (case r of
        Argument \<Rightarrow> (case state0 of None \<Rightarrow> defaultState | Some s \<Rightarrow> s)
      | Closure \<Rightarrow> defaultState
      | Produced s \<Rightarrow> s)"

text \<open>\<^verbatim>\<open>state = defaultState\<close>: the reference the parameter holds.\<close>

definition stateRef :: "obj option \<Rightarrow> returned" where
  "stateRef state0 = (case state0 of None \<Rightarrow> Closure | Some s \<Rightarrow> Argument)"

section \<open>createAsyncReducer\<close>

definition defaultAsyncState :: obj where
  "defaultAsyncState =
     fmap_of_list [(''data'', JNull), (''pending'', JBool False), (''error'', JNull)]"

text \<open>
  The block that the PENDING, SUCCESS and FAIL branches each repeat for an action with a
  key, with the assignments \<^verbatim>\<open>ws\<close> the branch makes on an entry it finds and the entry
  \<^verbatim>\<open>fresh\<close> it stores when it finds none. \<^verbatim>\<open>if (draftState.dataEntity[key])\<close> tests what
  the read returns:
  \<^item> an own entry that is an object gets the assignments;
  \<^item> a falsy value, own or inherited, or none at all, has the fresh entry stored over it;
  \<^item> a built-in of \<^verbatim>\<open>Object.prototype\<close> gets the assignments, in the realm, and the state
    keeps no entry;
  \<^item> a truthy string, number or boolean raises a TypeError at the first assignment (the
    module is strict code);
  \<^item> an array, or an object inherited from \<^verbatim>\<open>Object.prototype\<close>, is left out of the model.
\<close>

definition onEntry ::
  "realm \<Rightarrow> obj \<Rightarrow> obj \<Rightarrow> string \<Rightarrow> (string \<times> jsval) list \<Rightarrow> obj \<Rightarrow> error + obj \<times> realm" where
  "onEntry R draftState dataEntity k ws fresh =
     (let stored =
            Inr (fmupd ''dataEntity'' (JObj (fmupd k (JObj fresh) dataEntity)) draftState, R)
      in case lookupProp R dataEntity k of
           Own v \<Rightarrow>
             (case v of
                JObj e \<Rightarrow>
                  Inr (fmupd ''dataEntity'' (JObj (fmupd k (JObj (assign ws e)) dataEntity))
                         draftState, R)
              | JArr xs \<Rightarrow> Inl Unmodelled
              | _ \<Rightarrow> if truthy v then Inl TypeError else stored)
         | Added v \<Rightarrow>
             if \<not> truthy v then stored
             else if primitive v then Inl TypeError
             else Inl Unmodelled
         | Builtin \<Rightarrow> Inr (draftState, writeInherited R k ws)
         | Absent \<Rightarrow> stored)"

text \<open>
  \<^verbatim>\<open>if (!draftState.dataEntity) { draftState.dataEntity = {}; }\<close> comes first. A
  \<^verbatim>\<open>dataEntity\<close> that is truthy and not an own object is outside \<^verbatim>\<open>IAsyncState\<close>, and
  left out of the model.
\<close>

definition onEntity ::
  "realm \<Rightarrow> obj \<Rightarrow> string \<Rightarrow> (string \<times> jsval) list \<Rightarrow> obj \<Rightarrow> error + obj \<times> realm" where
  "onEntity R state k ws fresh =
     (let created = onEntry R (fmupd ''dataEntity'' (JObj fmempty) state) fmempty k ws fresh
      in case lookupProp R state ''dataEntity'' of
           Own v \<Rightarrow>
             (case v of
                JObj dataEntity \<Rightarrow> onEntry R state dataEntity k ws fresh
              | _ \<Rightarrow> if truthy v then Inl Unmodelled else created)
         | Added v \<Rightarrow> if truthy v then Inl Unmodelled else created
         | Builtin \<Rightarrow> Inl Unmodelled
         | Absent \<Rightarrow> created)"

text \<open>\<^verbatim>\<open>const key = action.key; if (key)\<close>: the key when it is there and not empty.\<close>

definition keyOf :: "action \<Rightarrow> string option" where
  "keyOf a = (case key a of None \<Rightarrow> None | Some k \<Rightarrow> if k = [] then None else Some k)"

definition asyncPending :: "realm \<Rightarrow> obj \<Rightarrow> obj \<Rightarrow> action \<Rightarrow> error + obj \<times> realm" where
  "asyncPending R defaultState state a =
     (case keyOf a of
        Some k \<Rightarrow>
          onEntity R state k
            [(''pending'', JBool True)]
            (fmupd ''pending'' (JBool True) defaultState)
      | None \<Rightarrow> Inr (fmupd ''pending'' (JBool True) state, R))"

definition asyncSuccess :: "realm \<Rightarrow> obj \<Rightarrow> obj \<Rightarrow> action \<Rightarrow> error + obj \<times> realm" where
  "asyncSuccess R defaultState state a =
     (case keyOf a of
        Some k \<Rightarrow>
          onEntity R state k
            [(''data'', payload a), (''error'', JNull), (''pending'', JBool False)]
            (fmap_of_list
               [(''data'', payload a), (''error'', JNull), (''pending'', JBool False)])
      | None \<Rightarrow>
          Inr (fmupd ''pending'' (JBool False)
                 (fmupd ''error'' JNull (fmupd ''data'' (payload a) state)), R))"

definition asyncFail :: "realm \<Rightarrow> obj \<Rightarrow> obj \<Rightarrow> action \<Rightarrow> error + obj \<times> realm" where
  "asyncFail R defaultState state a =
     (case keyOf a of
        Some k \<Rightarrow>
          onEntity R state k
            [(''error'', payload a), (''pending'', JBool False)]
            (fmupd ''pending'' (JBool True) (fmupd ''error'' (payload a) defaultState))
      | None \<Rightarrow>
          Inr (fmupd ''pending'' (JBool False) (fmupd ''error'' (payload a) state), R))"

text \<open>The path RESET hands to \<^verbatim>\<open>_.unset\<close> for a key.\<close>

definition resetPath :: "string \<Rightarrow> string" where
  "resetPath k = (if k = ''*'' then ''dataEntity'' else ''dataEntity.'' @ k)"

definition asyncReset :: "realm \<Rightarrow> obj \<Rightarrow> action \<Rightarrow> error + obj \<times> realm" where
  "asyncReset R state a =
     (case keyOf a of
        Some k \<Rightarrow>
          (case unset R state (resetPath k) of Inl e \<Rightarrow> Inl e | Inr s \<Rightarrow> Inr (s, R))
      | None \<Rightarrow>
          Inr (fmupd ''pending'' (JBool False)
                 (fmupd ''error'' JNull (fmupd ''data'' JNull state)), R))"

text \<open>
  \<^verbatim>\<open>initialState\<close> and \<^verbatim>\<open>state\<close> are \<^verbatim>\<open>None\<close> when the argument is \<^verbatim>\<open>undefined\<close>, where the
  default parameters step in.
\<close>

definition asyncDefaultState :: "obj option \<Rightarrow> obj" where
  "asyncDefaultState initialState =
     defaultAsyncState ++\<^sub>f (case initialState of None \<Rightarrow> defaultAsyncState | Some i \<Rightarrow> i)"

text \<open>\<^verbatim>\<open>return produce(state, recipe)\<close>, for what the recipe makes of the draft.\<close>

definition produceIn :: "error + obj \<times> realm \<Rightarrow> error + returned \<times> realm" where
  "produceIn r = (case r of Inl e \<Rightarrow> Inl e | Inr (s, R) \<Rightarrow> Inr (Produced s, R))"

definition createAsyncReducer ::
  "string \<Rightarrow> obj option \<Rightarrow> realm \<Rightarrow> obj option \<Rightarrow> action \<Rightarrow> error + returned \<times> realm" where
  "createAsyncReducer actionTypePrefix initialState R state0 a =
     (let defaultState = asyncDefaultState initialState;
          state = (case state0 of None \<Rightarrow> defaultState | Some s \<Rightarrow> s)
      in if type a = PENDING actionTypePrefix
           then produceIn (asyncPending R defaultState state a)
         else if type a = SUCCESS actionTypePrefix
           then produceIn (asyncSuccess R defaultState state a)
         else if type a = FAIL actionTypePrefix
           then produceIn (asyncFail R defaultState state a)
         else if type a = RESET actionTypePrefix
           then produceIn (asyncReset R state a)
         else Inr (stateRef state0, R))"

text \<open>The state behind the reference returned, and the realm left behind.\<close>

definition asyncNext ::
  "string \<Rightarrow> obj option \<Rightarrow> realm \<Rightarrow> obj option \<Rightarrow> action \<Rightarrow> error + obj" where
  "asyncNext actionTypePrefix initialState R state0 a =
     (case createAsyncReducer actionTypePrefix initialState R state0 a of
        Inl e \<Rightarrow> Inl e
      | Inr (r, R') \<Rightarrow> Inr (stateOf (asyncDefaultState initialState) state0 r))"

definition asyncRealm ::
  "string \<Rightarrow> obj option \<Rightarrow> realm \<Rightarrow> obj option \<Rightarrow> action \<Rightarrow> error + realm" where
  "asyncRealm actionTypePrefix initialState R state0 a =
     (case createAsyncReducer actionTypePrefix initialState R state0 a of
        Inl e \<Rightarrow> Inl e
      | Inr (r, R') \<Rightarrow> Inr R')"

section \<open>createAsyncPagingReducer\<close>

definition defaultAsyncPagingState :: obj where
  "defaultAsyncPagingState =
     fmap_of_list
       [(''data'', JArr []), (''offset'', JNum 0), (''pending'', JBool False),
        (''error'', JNull), (''hasMore'', JBool True)]"

definition pagingDefaultState :: "obj option \<Rightarrow> obj" where
  "pagingDefaultState initialState =
     defaultAsyncPagingState
       ++\<^sub>f (case initialState of None \<Rightarrow> defaultAsyncPagingState | Some i \<Rightarrow> i)"

text \<open>
  \<^verbatim>\<open>draftState.data.push(...items)\<close> and \<^verbatim>\<open>draftState.data.unshift(item)\<close>: a TypeError
  when \<^verbatim>\<open>data\<close> is no array.
\<close>

definition push :: "obj \<Rightarrow> jsval list \<Rightarrow> error + obj" where
  "push draftState items =
     (case get draftState ''data'' of
        JArr xs \<Rightarrow> Inr (fmupd ''data'' (JArr (xs @ items)) draftState)
      | _ \<Rightarrow> Inl TypeError)"

definition unshift :: "obj \<Rightarrow> jsval \<Rightarrow> error + obj" where
  "unshift draftState item =
     (case get draftState ''data'' of
        JArr xs \<Rightarrow> Inr (fmupd ''data'' (JArr (item # xs)) draftState)
      | _ \<Rightarrow> Inl TypeError)"

text \<open>\<^verbatim>\<open>draftState.offset += d\<close>.\<close>

definition addOffset :: "obj \<Rightarrow> int \<Rightarrow> error + obj" where
  "addOffset draftState d =
     (case addNum (get draftState ''offset'') d of
        Inl e \<Rightarrow> Inl e
      | Inr n \<Rightarrow> Inr (fmupd ''offset'' n draftState))"

text \<open>
  \<^verbatim>\<open>Array.prototype.findIndex\<close>: the index of the first element the callback accepts,
  \<^verbatim>\<open>-1\<close> when there is none; an exception of the callback ends the search.
\<close>

fun findIndex :: "(jsval \<Rightarrow> error + bool) \<Rightarrow> jsval list \<Rightarrow> error + int" where
  "findIndex p [] = Inr (- 1)"
| "findIndex p (e # es) =
     (case p e of
        Inl err \<Rightarrow> Inl err
      | Inr True \<Rightarrow> Inr 0
      | Inr False \<Rightarrow>
          (case findIndex p es of
             Inl err \<Rightarrow> Inl err
           | Inr i \<Rightarrow> Inr (if i < 0 then - 1 else i + 1)))"

text \<open>The callback \<^verbatim>\<open>(e) => e.id === id\<close>, where \<^verbatim>\<open>id\<close> is a value at hand.\<close>

definition idIs :: "jsval \<Rightarrow> jsval \<Rightarrow> error + bool" where
  "idIs v e = (if nullish e then Inl TypeError else Inr (strictEq (propOf e ''id'') v))"

text \<open>
  The callback \<^verbatim>\<open>(e) => e.id === updateData.id\<close>, which reads the payload at each element.
\<close>

definition idIsIdOf :: "jsval \<Rightarrow> jsval \<Rightarrow> error + bool" where
  "idIsIdOf updateData e =
     (if nullish e then Inl TypeError
      else if nullish updateData then Inl TypeError
      else Inr (strictEq (propOf e ''id'') (propOf updateData ''id'')))"

text \<open>\<^verbatim>\<open>draftState.data.findIndex(callback)\<close>: a TypeError when \<^verbatim>\<open>data\<close> is no array.\<close>

definition dataFindIndex :: "obj \<Rightarrow> (jsval \<Rightarrow> error + bool) \<Rightarrow> error + int" where
  "dataFindIndex draftState p =
     (case get draftState ''data'' of JArr xs \<Rightarrow> findIndex p xs | _ \<Rightarrow> Inl TypeError)"

text \<open>The elements of \<^verbatim>\<open>data\<close> once \<^verbatim>\<open>findIndex\<close> has returned.\<close>

definition dataItems :: "obj \<Rightarrow> jsval list" where
  "dataItems draftState = (case get draftState ''data'' of JArr xs \<Rightarrow> xs | _ \<Rightarrow> [])"

definition pagingPending :: "obj \<Rightarrow> action \<Rightarrow> error + obj" where
  "pagingPending state a =
     (case restOf (payload a) [''clear''] of
        Inl e \<Rightarrow> Inl e
      | Inr rest \<Rightarrow>
          (let clear = propOf (payload a) ''clear'';
               cleared =
                 (if truthy clear
                  then fmupd ''offset'' (JNum 0) (fmupd ''data'' (JArr []) state)
                  else state);
               merged = cleared ++\<^sub>f rest
           in Inr (fmupd ''hasMore'' (JBool True) (fmupd ''pending'' (JBool True) merged))))"

definition pagingSuccess :: "obj \<Rightarrow> action \<Rightarrow> error + obj" where
  "pagingSuccess state a =
     (case restOf (payload a) [''data'', ''firstOffset''] of
        Inl e \<Rightarrow> Inl e
      | Inr rest \<Rightarrow>
          (let data = propOf (payload a) ''data'';
               firstOffset = propOf (payload a) ''firstOffset'';
               newData = (case data of JArr xs \<Rightarrow> xs | _ \<Rightarrow> []);
               len = int (length newData)
           in case (if truthy firstOffset then Inr (fmupd ''data'' (JArr newData) state)
                    else push state newData) of
                Inl e \<Rightarrow> Inl e
              | Inr listed \<Rightarrow>
                  (case (if truthy firstOffset then Inr (JNum len)
                         else addNum (get listed ''offset'') len) of
                     Inl e \<Rightarrow> Inl e
                   | Inr offset \<Rightarrow>
                       Inr (fmupd ''pending'' (JBool False)
                              (fmupd ''error'' JNull
                                 (fmupd ''hasMore'' (JBool (0 < len))
                                    (fmupd ''offset'' offset listed))
                               ++\<^sub>f rest)))))"

definition pagingAddLast :: "obj \<Rightarrow> action \<Rightarrow> error + obj" where
  "pagingAddLast state a =
     (case push state [payload a] of Inl e \<Rightarrow> Inl e | Inr pushed \<Rightarrow> addOffset pushed 1)"

definition pagingAddFirst :: "obj \<Rightarrow> action \<Rightarrow> error + obj" where
  "pagingAddFirst state a =
     (case unshift state (payload a) of Inl e \<Rightarrow> Inl e | Inr pushed \<Rightarrow> addOffset pushed 1)"

definition pagingUpdate :: "obj \<Rightarrow> action \<Rightarrow> error + obj" where
  "pagingUpdate state a =
     (if truthy (get state ''data'') then
        (let updateData = payload a
         in case dataFindIndex state (idIsIdOf updateData) of
              Inl e \<Rightarrow> Inl e
            | Inr index \<Rightarrow>
                if 0 \<le> index then
                  (if ''__proto__'' |\<in>| fmdom (ownProps updateData) then Inl Unmodelled
                   else Inr (fmupd ''data''
                               (JArr ((dataItems state)[nat index := JObj (ownProps updateData)]))
                               state))
                else Inr state)
      else Inr state)"

definition pagingReplace :: "obj \<Rightarrow> action \<Rightarrow> error + obj" where
  "pagingReplace state a =
     (if nullish (payload a) then Inl TypeError
      else
        (let searchId = propOf (payload a) ''id''
         in case dataFindIndex state (idIs searchId) of
              Inl e \<Rightarrow> Inl e
            | Inr replaceIndex \<Rightarrow>
                if 0 \<le> replaceIndex \<and> truthy (propOf (payload a) ''data'')
                   \<and> \<not> (case propOf (payload a) ''data'' of JArr xs \<Rightarrow> True | _ \<Rightarrow> False)
                then Inr (fmupd ''data''
                            (JArr ((dataItems state)
                                     [nat replaceIndex := propOf (payload a) ''data'']))
                            state)
                else Inr state))"

definition pagingRemove :: "obj \<Rightarrow> action \<Rightarrow> error + obj" where
  "pagingRemove state a =
     (let id = payload a
      in case dataFindIndex state (idIs id) of
           Inl e \<Rightarrow> Inl e
         | Inr index \<Rightarrow>
             if 0 \<le> index then
               addOffset
                 (fmupd ''data''
                    (JArr (take (nat index) (dataItems state)
                           @ drop (Suc (nat index)) (dataItems state)))
                    state)
                 (- 1)
             else Inr state)"

definition pagingFail :: "obj \<Rightarrow> action \<Rightarrow> error + obj" where
  "pagingFail state a =
     Inr (fmupd ''pending'' (JBool False) (fmupd ''error'' (payload a) state))"

text \<open>\<^verbatim>\<open>return produce(state, recipe)\<close>, for what the recipe makes of the draft.\<close>

definition produce :: "error + obj \<Rightarrow> error + returned" where
  "produce r = (case r of Inl e \<Rightarrow> Inl e | Inr s \<Rightarrow> Inr (Produced s))"

text \<open>
  RESET is \<^verbatim>\<open>produce(defaultState, () => {})\<close>: the recipe changes nothing, and \<^verbatim>\<open>produce\<close>
  returns its base, the \<^verbatim>\<open>defaultState\<close> of the closure.
\<close>

definition createAsyncPagingReducer ::
  "string \<Rightarrow> obj option \<Rightarrow> obj option \<Rightarrow> action \<Rightarrow> error + returned" where
  "createAsyncPagingReducer actionTypePrefix initialState state0 a =
     (let defaultState = pagingDefaultState initialState;
          state = (case state0 of None \<Rightarrow> defaultState | Some s \<Rightarrow> s)
      in if type a = PENDING actionTypePrefix then produce (pagingPending state a)
         else if type a = SUCCESS actionTypePrefix then produce (pagingSuccess state a)
         else if type a = ADD_LAST actionTypePrefix then produce (pagingAddLast state a)
         else if type a = ADD_FIRST actionTypePrefix then produce (pagingAddFirst state a)
         else if type a = UPDATE actionTypePrefix then produce (pagingUpdate state a)
         else if type a = REPLACE actionTypePrefix then produce (pagingReplace state a)
         else if type a = REMOVE actionTypePrefix then produce (pagingRemove state a)
         else if type a = FAIL actionTypePrefix then produce (pagingFail state a)
         else if type a = RESET actionTypePrefix then Inr Closure
         else Inr (stateRef state0))"

text \<open>The state behind the reference returned.\<close>

definition pagingNext :: "string \<Rightarrow> obj option \<Rightarrow> obj option \<Rightarrow> action \<Rightarrow> error + obj" where
  "pagingNext actionTypePrefix initialState state0 a =
     (case createAsyncPagingReducer actionTypePrefix initialState state0 a of
        Inl e \<Rightarrow> Inl e
      | Inr r \<Rightarrow> Inr (stateOf (pagingDefaultState initialState) state0 r))"

section \<open>States and observations\<close>

text \<open>The action types a reducer derives from its prefix, in the order of its switch.\<close>

definition asyncActionTypes :: "string \<Rightarrow> string list" where
  "asyncActionTypes P = [PENDING P, SUCCESS P, FAIL P, RESET P]"

definition pagingActionTypes :: "string \<Rightarrow> string list" where
  "pagingActionTypes P =
     [PENDING P, SUCCESS P, ADD_LAST P, ADD_FIRST P, UPDATE P, REPLACE P, REMOVE P,
      FAIL P, RESET P]"

text \<open>A field of the state a reducer returns, and the entry it keeps under a key.\<close>

definition field :: "error + obj \<Rightarrow> string \<Rightarrow> error + jsval" where
  "field r k = (case r of Inl e \<Rightarrow> Inl e | Inr state \<Rightarrow> Inr (get state k))"

definition entity :: "obj \<Rightarrow> string \<Rightarrow> jsval option" where
  "entity state k =
     (case get state ''dataEntity'' of JObj m \<Rightarrow> fmlookup m k | _ \<Rightarrow> None)"

definition entityOf :: "error + obj \<Rightarrow> string \<Rightarrow> error + jsval option" where
  "entityOf r k = (case r of Inl e \<Rightarrow> Inl e | Inr state \<Rightarrow> Inr (entity state k))"

text \<open>
  \<^verbatim>\<open>dataEntity?: { [key: string]: IAsyncState }\<close>: the mapping is absent, or an object.
\<close>

definition entityMap :: "obj \<Rightarrow> bool" where
  "entityMap state =
     (case get state ''dataEntity'' of JObj m \<Rightarrow> True | v \<Rightarrow> \<not> truthy v)"

fun isObject :: "jsval \<Rightarrow> bool" where
  "isObject (JObj m) = True"
| "isObject v = False"

text \<open>
  A state of type \<^verbatim>\<open>IAsyncState\<close>, as far as the transitions read it: \<^verbatim>\<open>dataEntity\<close> is
  absent (or \<^verbatim>\<open>undefined\<close>, or \<^verbatim>\<open>null\<close>), or a mapping to objects.
\<close>

definition isAsyncState :: "obj \<Rightarrow> bool" where
  "isAsyncState state =
     (case get state ''dataEntity'' of
        JObj m \<Rightarrow> fmpred (\<lambda>k v. isObject v) m
      | v \<Rightarrow> nullish v)"

text \<open>None of the names is a property added to \<^verbatim>\<open>Object.prototype\<close>.\<close>

definition notAdded :: "realm \<Rightarrow> string list \<Rightarrow> bool" where
  "notAdded R names = list_all (\<lambda>n. fmlookup (added R) n = None) names"


text \<open>A key that holds none of the characters a property path is cut at.\<close>

definition pathFree :: "string \<Rightarrow> bool" where
  "pathFree k = list_all (\<lambda>c. \<not> pathChar c) k"





text \<open>The reducer returns a state: no exception, and nothing the model leaves out.\<close>

definition returns :: "error + obj \<Rightarrow> bool" where
  "returns r = (case r of Inl e \<Rightarrow> False | Inr state \<Rightarrow> True)"


text \<open>The items a SUCCESS payload brings: its \<^verbatim>\<open>data\<close> when that is an array.\<close>

definition newItems :: "jsval \<Rightarrow> jsval list" where
  "newItems v = (case propOf v ''data'' of JArr xs \<Rightarrow> xs | _ \<Rightarrow> [])"

section \<open>Properties\<close>

lemmas actionType_defs =
  PENDING_def SUCCESS_def FAIL_def RESET_def UPDATE_def ADD_LAST_def ADD_FIRST_def
  REPLACE_def REMOVE_def

lemma get_fmupd [simp]: "get (fmupd k v m) k' = (if k = k' then v else get m k')"
  by (simp add: get_def)

subsection \<open>createReducerBatch\<close>


lemma createReducerBatch_map_of:
  "distinct (map fst init) \<Longrightarrow> (k, t, v) \<in> set init \<Longrightarrow>
   map_of (createReducerBatch init) k = Some (batchReducer t (js_or v JNull))"
  by (induction init) (auto simp: Let_def rev_image_eqI)

text \<open>
  C10. An entry of \<^verbatim>\<open>createReducerBatch\<close> configured with a falsy initial state
  (\<^verbatim>\<open>false\<close>, \<^verbatim>\<open>0\<close>, the empty string) gives a reducer whose state, when it is called with
  \<^verbatim>\<open>undefined\<close> and an action of another type, is \<^verbatim>\<open>null\<close> and not the configured value.
\<close>

theorem createReducerBatch_falsy_initial_null:
  assumes "distinct (map fst init)" and "(k, t, v) \<in> set init"
    and "\<not> truthy v" and "type a \<noteq> t"
  shows "\<exists>r. map_of (createReducerBatch init) k = Some r \<and> r JUndefined a = JNull"
  using createReducerBatch_map_of [OF assms(1,2)] assms(3,4)
  by (simp add: batchReducer_def js_or_def)

theorem createReducerBatch_falsy_initial_null_witness:
  "distinct (map fst [(''mute'', ''SET_MUTE'', JBool False), (''count'', ''SET_COUNT'', JNum 0)])
   \<and> (''mute'', ''SET_MUTE'', JBool False)
       \<in> set [(''mute'', ''SET_MUTE'', JBool False), (''count'', ''SET_COUNT'', JNum 0)]
   \<and> \<not> truthy (JBool False)
   \<and> type \<lparr>type = ''INIT'', payload = JUndefined, key = None\<rparr> \<noteq> ''SET_MUTE''
   \<and> (\<exists>r. map_of (createReducerBatch
              [(''mute'', ''SET_MUTE'', JBool False), (''count'', ''SET_COUNT'', JNum 0)]) ''mute''
            = Some r
          \<and> r JUndefined \<lparr>type = ''INIT'', payload = JUndefined, key = None\<rparr> = JNull)"
  using createReducerBatch_falsy_initial_null
    [of "[(''mute'', ''SET_MUTE'', JBool False), (''count'', ''SET_COUNT'', JNum 0)]"
        "''mute''" "''SET_MUTE''" "JBool False"
        "\<lparr>type = ''INIT'', payload = JUndefined, key = None\<rparr>"]
  by simp

subsection \<open>Numbers\<close>



subsection \<open>createAsyncReducer\<close>

text \<open>
  C1. SUCCESS without a key: whatever the state held, the state returned has
  \<^verbatim>\<open>data\<close> equal to the payload, \<^verbatim>\<open>error = null\<close> and \<^verbatim>\<open>pending = false\<close>.
\<close>

theorem success_without_key:
  assumes "type a = SUCCESS P" and "keyOf a = None"
  shows "field (asyncNext P init R S0 a) ''data'' = Inr (payload a)
       \<and> field (asyncNext P init R S0 a) ''error'' = Inr JNull
       \<and> field (asyncNext P init R S0 a) ''pending'' = Inr (JBool False)"
  using assms
  by (simp add: asyncNext_def createAsyncReducer_def asyncSuccess_def produceIn_def
      stateOf_def actionType_defs Let_def field_def)

theorem success_without_key_witness:
  "type \<lparr>type = ''FETCH_SUCCESS'', payload = JNum 7, key = None\<rparr> = SUCCESS ''FETCH''
   \<and> keyOf \<lparr>type = ''FETCH_SUCCESS'', payload = JNum 7, key = None\<rparr> = None
   \<and> field (asyncNext ''FETCH'' None pristine
              (Some (fmap_of_list [(''data'', JStr ''old''), (''pending'', JBool True),
                                   (''error'', JStr ''failed'')]))
              \<lparr>type = ''FETCH_SUCCESS'', payload = JNum 7, key = None\<rparr>) ''data''
       = Inr (JNum 7)
   \<and> field (asyncNext ''FETCH'' None pristine
              (Some (fmap_of_list [(''data'', JStr ''old''), (''pending'', JBool True),
                                   (''error'', JStr ''failed'')]))
              \<lparr>type = ''FETCH_SUCCESS'', payload = JNum 7, key = None\<rparr>) ''error''
       = Inr JNull
   \<and> field (asyncNext ''FETCH'' None pristine
              (Some (fmap_of_list [(''data'', JStr ''old''), (''pending'', JBool True),
                                   (''error'', JStr ''failed'')]))
              \<lparr>type = ''FETCH_SUCCESS'', payload = JNum 7, key = None\<rparr>) ''pending''
       = Inr (JBool False)"
  using success_without_key
    [of "\<lparr>type = ''FETCH_SUCCESS'', payload = JNum 7, key = None\<rparr>" "''FETCH''" None pristine
        "Some (fmap_of_list [(''data'', JStr ''old''), (''pending'', JBool True),
                             (''error'', JStr ''failed'')])"]
  by (simp add: SUCCESS_def keyOf_def)

text \<open>
  C5. FAIL without a key: \<^verbatim>\<open>error\<close> becomes the payload and \<^verbatim>\<open>pending\<close> false; \<^verbatim>\<open>data\<close>,
  \<^verbatim>\<open>dataEntity\<close> with all its entries, and every other field stay what they were.
\<close>

theorem fail_without_key:
  assumes "type a = FAIL P" and "keyOf a = None"
  shows "field (asyncNext P init R (Some S) a) ''error'' = Inr (payload a)
       \<and> field (asyncNext P init R (Some S) a) ''pending'' = Inr (JBool False)
       \<and> field (asyncNext P init R (Some S) a) ''data'' = Inr (get S ''data'')
       \<and> field (asyncNext P init R (Some S) a) ''dataEntity''
           = Inr (get S ''dataEntity'')
       \<and> entityOf (asyncNext P init R (Some S) a) k = Inr (entity S k)"
  using assms
  by (simp add: asyncNext_def createAsyncReducer_def asyncFail_def produceIn_def stateOf_def
      actionType_defs Let_def field_def entityOf_def entity_def)

theorem fail_without_key_witness:
  "type \<lparr>type = ''FETCH_FAIL'', payload = JStr ''boom'', key = Some []\<rparr> = FAIL ''FETCH''
   \<and> keyOf \<lparr>type = ''FETCH_FAIL'', payload = JStr ''boom'', key = Some []\<rparr> = None
   \<and> field (asyncNext ''FETCH'' None pristine
              (Some (fmap_of_list
                 [(''data'', JNum 1), (''pending'', JBool True), (''error'', JNull),
                  (''dataEntity'', JObj (fmap_of_list [(''u1'', JObj defaultAsyncState)]))]))
              \<lparr>type = ''FETCH_FAIL'', payload = JStr ''boom'', key = Some []\<rparr>) ''error''
       = Inr (JStr ''boom'')
   \<and> field (asyncNext ''FETCH'' None pristine
              (Some (fmap_of_list
                 [(''data'', JNum 1), (''pending'', JBool True), (''error'', JNull),
                  (''dataEntity'', JObj (fmap_of_list [(''u1'', JObj defaultAsyncState)]))]))
              \<lparr>type = ''FETCH_FAIL'', payload = JStr ''boom'', key = Some []\<rparr>) ''pending''
       = Inr (JBool False)
   \<and> field (asyncNext ''FETCH'' None pristine
              (Some (fmap_of_list
                 [(''data'', JNum 1), (''pending'', JBool True), (''error'', JNull),
                  (''dataEntity'', JObj (fmap_of_list [(''u1'', JObj defaultAsyncState)]))]))
              \<lparr>type = ''FETCH_FAIL'', payload = JStr ''boom'', key = Some []\<rparr>) ''data''
       = Inr (JNum 1)
   \<and> entityOf (asyncNext ''FETCH'' None pristine
              (Some (fmap_of_list
                 [(''data'', JNum 1), (''pending'', JBool True), (''error'', JNull),
                  (''dataEntity'', JObj (fmap_of_list [(''u1'', JObj defaultAsyncState)]))]))
              \<lparr>type = ''FETCH_FAIL'', payload = JStr ''boom'', key = Some []\<rparr>) ''u1''
       = Inr (Some (JObj defaultAsyncState))"
  using fail_without_key
    [of "\<lparr>type = ''FETCH_FAIL'', payload = JStr ''boom'', key = Some []\<rparr>" "''FETCH''" None
        pristine
        "fmap_of_list
           [(''data'', JNum 1), (''pending'', JBool True), (''error'', JNull),
            (''dataEntity'', JObj (fmap_of_list [(''u1'', JObj defaultAsyncState)]))]"
        "''u1''"]
  by (simp add: FAIL_def keyOf_def entity_def get_def)

text \<open>
  C3. On an action whose type is none of the derived ones, each reducer returns the
  reference it was passed as \<^verbatim>\<open>state\<close>: the object itself, which a copy of it would not be.
  The state behind it is the state passed, and the realm is as it was.
\<close>

theorem unrelated_action_returns_state:
  "(type a \<notin> set (asyncActionTypes P)
      \<longrightarrow> createAsyncReducer P init R (Some S) a = Inr (Argument, R)
          \<and> asyncNext P init R (Some S) a = Inr S)
   \<and> (type a \<notin> set (pagingActionTypes P)
        \<longrightarrow> createAsyncPagingReducer P init' (Some S) a = Inr Argument
            \<and> pagingNext P init' (Some S) a = Inr S)"
  by (simp add: createAsyncReducer_def createAsyncPagingReducer_def asyncNext_def
      pagingNext_def stateRef_def stateOf_def asyncActionTypes_def pagingActionTypes_def
      Let_def)

theorem unrelated_action_returns_state_witness:
  "type \<lparr>type = ''UNRELATED'', payload = JNum 1, key = Some ''k''\<rparr>
     \<notin> set (asyncActionTypes ''FETCH'')
   \<and> createAsyncReducer ''FETCH'' None pristine
        (Some (fmap_of_list [(''data'', JNum 5), (''pending'', JBool True), (''error'', JNull)]))
        \<lparr>type = ''UNRELATED'', payload = JNum 1, key = Some ''k''\<rparr>
       = Inr (Argument, pristine)
   \<and> type \<lparr>type = ''UNRELATED'', payload = JNum 1, key = Some ''k''\<rparr>
     \<notin> set (pagingActionTypes ''FETCH'')
   \<and> createAsyncPagingReducer ''FETCH'' None
        (Some (fmap_of_list [(''data'', JNum 5), (''pending'', JBool True), (''error'', JNull)]))
        \<lparr>type = ''UNRELATED'', payload = JNum 1, key = Some ''k''\<rparr>
       = Inr Argument
   \<and> Argument \<noteq> Produced
        (fmap_of_list [(''data'', JNum 5), (''pending'', JBool True), (''error'', JNull)])"
  using unrelated_action_returns_state
    [of "\<lparr>type = ''UNRELATED'', payload = JNum 1, key = Some ''k''\<rparr>" "''FETCH''" None
        pristine
        "fmap_of_list [(''data'', JNum 5), (''pending'', JBool True), (''error'', JNull)]" None]
  by (simp add: asyncActionTypes_def pagingActionTypes_def actionType_defs)

text \<open>
  FAIL with a key under which nothing is found, neither in the state nor inherited, stores
  the reducer's default state with \<^verbatim>\<open>error\<close> the payload and \<^verbatim>\<open>pending = true\<close>.
\<close>

lemma onEntity_fresh:
  assumes "entityMap S" and "entity S k = None" and "\<not> List.member objectPrototypeKeys k"
    and "notAdded R [''dataEntity'', k]"
  shows "onEntity R S k ws fresh =
           Inr (fmupd ''dataEntity''
                  (JObj (fmupd k (JObj fresh)
                     (case get S ''dataEntity'' of JObj m \<Rightarrow> m | _ \<Rightarrow> fmempty))) S, R)"
proof (cases "fmlookup S ''dataEntity''")
  case None
  with assms show ?thesis
    by (simp add: onEntity_def onEntry_def lookupProp_def notAdded_def get_def
        objectPrototypeKeys_def Let_def)
next
  case (Some v)
  with assms show ?thesis
    by (cases v)
      (simp_all add: onEntity_def onEntry_def lookupProp_def notAdded_def get_def entity_def
        entityMap_def Let_def)
qed

lemma fail_creates_pending_entry:
  assumes "type a = FAIL P" and "keyOf a = Some k"
    and "\<not> List.member objectPrototypeKeys k" and "notAdded R [''dataEntity'', k]"
    and "entityMap S" and "entity S k = None"
  shows "entityOf (asyncNext P init R (Some S) a) k
         = Inr (Some (JObj (fmupd ''pending'' (JBool True)
                              (fmupd ''error'' (payload a) (asyncDefaultState init)))))"
  using assms(1,2) onEntity_fresh [OF assms(5,6,3,4)]
  by (simp add: asyncNext_def createAsyncReducer_def asyncFail_def produceIn_def stateOf_def
      actionType_defs Let_def entityOf_def entity_def)

text \<open>
  C4 at the key \<^verbatim>\<open>toString\<close>. The default state has no \<^verbatim>\<open>dataEntity\<close>, and so no entry under
  that key. FAIL creates an empty \<^verbatim>\<open>dataEntity\<close>, reads the inherited function under the
  key, takes it for an entry and assigns \<^verbatim>\<open>error\<close> and \<^verbatim>\<open>pending = false\<close> to it: the state
  returned has no entry under the key, and the function \<^verbatim>\<open>Object.prototype.toString\<close> has
  the two properties.
\<close>

theorem fail_inherited_key_no_entry:
  "keyOf \<lparr>type = ''FETCH_FAIL'', payload = JStr ''boom'', key = Some ''toString''\<rparr>
     = Some ''toString''
   \<and> entity defaultAsyncState ''toString'' = None
   \<and> asyncNext ''FETCH'' None pristine (Some defaultAsyncState)
        \<lparr>type = ''FETCH_FAIL'', payload = JStr ''boom'', key = Some ''toString''\<rparr>
       = Inr (fmupd ''dataEntity'' (JObj fmempty) defaultAsyncState)
   \<and> entityOf (asyncNext ''FETCH'' None pristine (Some defaultAsyncState)
         \<lparr>type = ''FETCH_FAIL'', payload = JStr ''boom'', key = Some ''toString''\<rparr>)
        ''toString''
       = Inr None
   \<and> asyncRealm ''FETCH'' None pristine (Some defaultAsyncState)
        \<lparr>type = ''FETCH_FAIL'', payload = JStr ''boom'', key = Some ''toString''\<rparr>
       = Inr \<lparr>added = fmempty,
              onBuiltin = fmap_of_list
                [(''toString'',
                  fmap_of_list [(''pending'', JBool False), (''error'', JStr ''boom'')])]\<rparr>"
  by (simp add: asyncNext_def asyncRealm_def createAsyncReducer_def asyncFail_def
      produceIn_def stateOf_def actionType_defs Let_def keyOf_def onEntity_def onEntry_def
      defaultAsyncState_def get_def lookupProp_def objectPrototypeKeys_def entityOf_def
      entity_def pristine_def writeInherited_def assign_def)

subsection \<open>RESET and property paths\<close>

lemma rePropName_pathFree:
  assumes "k \<noteq> []" and "pathFree k"
  shows "rePropName k = [k]"
proof -
  from assms(1) obtain c cs where k: "k = c # cs" by (cases k) auto
  with assms(2) have c: "\<not> pathChar c" and cs: "\<forall>x\<in>set cs. \<not> pathChar x"
    by (simp_all add: pathFree_def list_all_iff)
  from cs have tw: "takeWhile (\<lambda>x. \<not> pathChar x) cs = cs"
    and dw: "dropWhile (\<lambda>x. \<not> pathChar x) cs = []"
    by simp_all
  show ?thesis unfolding k using c by (simp add: tw dw)
qed

lemma emptyKeyAhead_dot_pathFree:
  assumes "k \<noteq> []" and "pathFree k"
  shows "\<not> emptyKeyAhead (CHR ''.'' # k)"
proof -
  from assms(1) obtain c cs where k: "k = c # cs" by (cases k) auto
  with assms(2) have "\<not> pathChar c" by (simp add: pathFree_def)
  with k assms(1) show ?thesis
    by (auto simp: emptyKeyAhead_def dotOrPair_def pathChar_def)
qed

lemma stringToPath_dataEntity:
  assumes "k \<noteq> []" and "pathFree k"
  shows "stringToPath (''dataEntity.'' @ k) = [''dataEntity'', k]"
  using rePropName_pathFree [OF assms] emptyKeyAhead_dot_pathFree [OF assms]
  by (simp add: stringToPath_def pathChar_def)

lemma castPath_dataEntity:
  assumes "k \<noteq> []" and "pathFree k" and "fmlookup S (''dataEntity.'' @ k) = None"
    and "fmlookup (added R) (''dataEntity.'' @ k) = None"
  shows "castPath R (''dataEntity.'' @ k) S = [''dataEntity'', k]"
  using stringToPath_dataEntity [OF assms(1,2)] assms(3,4)
  by (simp add: castPath_def isKey_def reIsPlainProp_def reIsDeepProp_def wordChar_def
      lookupProp_def objectPrototypeKeys_def)

lemma castPath_plain: "castPath R ''dataEntity'' S = [''dataEntity'']"
  by (simp add: castPath_def isKey_def reIsPlainProp_def wordChar_def)

text \<open>RESET without a key clears the three top-level fields.\<close>

lemma reset_without_key:
  assumes "type a = RESET P" and "keyOf a = None"
  shows "field (asyncNext P init R S0 a) ''data'' = Inr JNull
       \<and> field (asyncNext P init R S0 a) ''error'' = Inr JNull
       \<and> field (asyncNext P init R S0 a) ''pending'' = Inr (JBool False)"
  using assms
  by (simp add: asyncNext_def createAsyncReducer_def asyncReset_def produceIn_def stateOf_def
      actionType_defs Let_def field_def)

text \<open>RESET with the key \<^verbatim>\<open>*\<close> removes the whole \<^verbatim>\<open>dataEntity\<close> mapping and nothing else.\<close>

lemma reset_star:
  assumes "type a = RESET P" and "keyOf a = Some ''*''"
  shows "asyncNext P init R (Some S) a = Inr (fmdrop ''dataEntity'' S)"
  using assms
  by (simp add: asyncNext_def createAsyncReducer_def asyncReset_def produceIn_def stateOf_def
      actionType_defs Let_def unset_def resetPath_def castPath_plain)

text \<open>
  RESET with a key that holds no \<^verbatim>\<open>.\<close>, \<^verbatim>\<open>[\<close> or \<^verbatim>\<open>]\<close> removes the entry under that key and
  nothing else, on a state that has no property named by the whole path.
\<close>

lemma reset_pathFree_key:
  assumes "type a = RESET P" and "keyOf a = Some k" and "k \<noteq> ''*''" and "pathFree k"
    and "isAsyncState S" and "fmlookup S (''dataEntity.'' @ k) = None"
    and "notAdded R [''dataEntity'', ''dataEntity.'' @ k]"
  shows "asyncNext P init R (Some S) a =
           Inr (case get S ''dataEntity'' of
                  JObj m \<Rightarrow> fmupd ''dataEntity'' (JObj (fmdrop k m)) S
                | _ \<Rightarrow> S)"
proof -
  from assms(2) have k: "k \<noteq> []" by (auto simp: keyOf_def split: option.splits if_splits)
  from assms(7) have "fmlookup (added R) (''dataEntity.'' @ k) = None"
    by (simp add: notAdded_def)
  from castPath_dataEntity [OF k assms(4,6) this] assms(3)
  have u: "unset R S (resetPath k) = baseUnset R S [''dataEntity'', k]"
    by (simp add: unset_def resetPath_def)
  have "baseUnset R S [''dataEntity'', k] =
          Inr (case get S ''dataEntity'' of
                 JObj m \<Rightarrow> fmupd ''dataEntity'' (JObj (fmdrop k m)) S
               | _ \<Rightarrow> S)"
    using assms(5,7)
    by (auto simp: isAsyncState_def lookupProp_def get_def objectPrototypeKeys_def
        notAdded_def nullish_def split: option.splits jsval.splits)
  with u assms(1,2) show ?thesis
    by (simp add: asyncNext_def createAsyncReducer_def asyncReset_def produceIn_def
        stateOf_def actionType_defs Let_def)
qed

text \<open>
  C6 at a key with a dot. The state holds the entries \<^verbatim>\<open>a\<close> and \<^verbatim>\<open>a.data\<close>; RESET with the
  key \<^verbatim>\<open>a.data\<close> is \<^verbatim>\<open>_.unset(draftState, 'dataEntity.a.data')\<close>, which removes the field
  \<^verbatim>\<open>data\<close> of the entry \<^verbatim>\<open>a\<close> and leaves the entry \<^verbatim>\<open>a.data\<close> where it was.
\<close>

theorem reset_dotted_key_keeps_entry:
  "keyOf \<lparr>type = ''FETCH_RESET'', payload = JUndefined, key = Some ''a.data''\<rparr>
     = Some ''a.data''
   \<and> entityOf (asyncNext ''FETCH'' None pristine
        (Some (fmap_of_list
           [(''data'', JNull), (''pending'', JBool False), (''error'', JNull),
            (''dataEntity'', JObj (fmap_of_list
               [(''a'', JObj (fmap_of_list
                   [(''data'', JNum 1), (''pending'', JBool False), (''error'', JNull)])),
                (''a.data'', JObj (fmap_of_list
                   [(''data'', JNum 2), (''pending'', JBool False), (''error'', JNull)]))]))]))
        \<lparr>type = ''FETCH_RESET'', payload = JUndefined, key = Some ''a.data''\<rparr>) ''a.data''
       = Inr (Some (JObj (fmap_of_list
                [(''data'', JNum 2), (''pending'', JBool False), (''error'', JNull)])))
   \<and> entityOf (asyncNext ''FETCH'' None pristine
        (Some (fmap_of_list
           [(''data'', JNull), (''pending'', JBool False), (''error'', JNull),
            (''dataEntity'', JObj (fmap_of_list
               [(''a'', JObj (fmap_of_list
                   [(''data'', JNum 1), (''pending'', JBool False), (''error'', JNull)])),
                (''a.data'', JObj (fmap_of_list
                   [(''data'', JNum 2), (''pending'', JBool False), (''error'', JNull)]))]))]))
        \<lparr>type = ''FETCH_RESET'', payload = JUndefined, key = Some ''a.data''\<rparr>) ''a''
       = Inr (Some (JObj (fmap_of_list [(''pending'', JBool False), (''error'', JNull)])))"
  by (simp add: asyncNext_def createAsyncReducer_def asyncReset_def produceIn_def stateOf_def
      actionType_defs Let_def keyOf_def resetPath_def
      unset_def castPath_def isKey_def reIsPlainProp_def reIsDeepProp_def wordChar_def
      lookupProp_def objectPrototypeKeys_def stringToPath_def pathChar_def emptyKeyAhead_def
      dotOrPair_def entityOf_def entity_def get_def fmdrop_fmupd pristine_def)

subsection \<open>createAsyncPagingReducer\<close>

lemma next_produce [simp]:
  "(case produce r of Inl e \<Rightarrow> Inl e | Inr x \<Rightarrow> Inr (stateOf d s0 x)) = r"
  by (cases r) (simp_all add: produce_def stateOf_def)

text \<open>
  C7. RESET returns the reducer's default state, which is the default paging state with
  the fields of the \<^verbatim>\<open>initialState\<close> argument laid over it, whatever the state held
  before: the reference returned is the \<^verbatim>\<open>defaultState\<close> of the closure.
\<close>

theorem paging_reset_default:
  assumes "type a = RESET P"
  shows "pagingNext P init S0 a = Inr (pagingDefaultState init)
       \<and> createAsyncPagingReducer P init S0 a = Inr Closure
       \<and> fmlookup (pagingDefaultState init) k =
           (case init of
              None \<Rightarrow> fmlookup defaultAsyncPagingState k
            | Some i \<Rightarrow>
                (case fmlookup i k of
                   Some v \<Rightarrow> Some v
                 | None \<Rightarrow> fmlookup defaultAsyncPagingState k))"
  using assms
  by (auto simp: pagingNext_def createAsyncPagingReducer_def stateOf_def actionType_defs
      Let_def pagingDefaultState_def fmlookup_dom_iff split: option.splits)

theorem paging_reset_default_witness:
  "type \<lparr>type = ''CARTS_RESET'', payload = JUndefined, key = None\<rparr> = RESET ''CARTS''
   \<and> pagingNext ''CARTS'' (Some (fmap_of_list [(''limit'', JNum 20)]))
        (Some (fmap_of_list
           [(''data'', JArr [JObj (fmap_of_list [(''id'', JNum 1)])]), (''offset'', JNum 1),
            (''pending'', JBool True), (''error'', JStr ''e''), (''hasMore'', JBool False),
            (''page'', JNum 3)]))
        \<lparr>type = ''CARTS_RESET'', payload = JUndefined, key = None\<rparr>
       = Inr (pagingDefaultState (Some (fmap_of_list [(''limit'', JNum 20)])))
   \<and> createAsyncPagingReducer ''CARTS'' (Some (fmap_of_list [(''limit'', JNum 20)]))
        (Some (fmap_of_list
           [(''data'', JArr [JObj (fmap_of_list [(''id'', JNum 1)])]), (''offset'', JNum 1),
            (''pending'', JBool True), (''error'', JStr ''e''), (''hasMore'', JBool False),
            (''page'', JNum 3)]))
        \<lparr>type = ''CARTS_RESET'', payload = JUndefined, key = None\<rparr>
       = Inr Closure
   \<and> fmlookup (pagingDefaultState (Some (fmap_of_list [(''limit'', JNum 20)]))) ''page'' = None
   \<and> fmlookup (pagingDefaultState (Some (fmap_of_list [(''limit'', JNum 20)]))) ''limit''
       = Some (JNum 20)
   \<and> fmlookup (pagingDefaultState (Some (fmap_of_list [(''limit'', JNum 20)]))) ''offset''
       = Some (JNum 0)"
  using paging_reset_default
    [of "\<lparr>type = ''CARTS_RESET'', payload = JUndefined, key = None\<rparr>" "''CARTS''"
        "Some (fmap_of_list [(''limit'', JNum 20)])"
        "Some (fmap_of_list
           [(''data'', JArr [JObj (fmap_of_list [(''id'', JNum 1)])]), (''offset'', JNum 1),
            (''pending'', JBool True), (''error'', JStr ''e''), (''hasMore'', JBool False),
            (''page'', JNum 3)])"]
  by (simp add: RESET_def pagingDefaultState_def defaultAsyncPagingState_def)













subsection \<open>Exceptions\<close>




lemma returns_Inr [simp]: "returns (Inr s)"
  by (simp add: returns_def)





















end
